theory Spec2Isabelle
  imports Complex_Main "HOL-Library.Word"
begin

unbundle bit_operations_syntax

section \<open>Visibility culling (culler.go)\<close>

text \<open>
  The cullers compute with \<^verbatim>\<open>float64\<close>. A \<^verbatim>\<open>float64\<close> value is modelled by the real
  number it denotes and the operations by exact real arithmetic: rounding, infinities
  and NaN are outside the model. The concrete cases below use small integers, on which
  \<^verbatim>\<open>float64\<close> arithmetic is exact.
\<close>

record V3 =
  vX :: real
  vY :: real
  vZ :: real

record Q =
  qX :: real
  qY :: real
  qZ :: real
  qW :: real

text \<open>\<^verbatim>\<open>lin.T\<close>: a location and a rotation; \<^verbatim>\<open>Camera.at\<close> holds one.\<close>

record T =
  Loc :: V3
  Rot :: Q

record Camera =
  cam_at :: T

text \<open>
  Modelled from the spec: \<^verbatim>\<open>Camera.Distance\<close> (camera.go) is not among the sources.
  The spec has it as the "distance to a point" operation of the camera, and the cullers
  "operate purely on squared distances (no square-root)": the squared straight-line
  distance from the camera's own position to the given point.
\<close>

definition Distance :: "Camera \<Rightarrow> real \<Rightarrow> real \<Rightarrow> real \<Rightarrow> real" where
  "Distance c px py pz =
     (let dx = px - vX (Loc (cam_at c));
          dy = py - vY (Loc (cam_at c));
          dz = pz - vZ (Loc (cam_at c))
      in dx * dx + dy * dy + dz * dz)"

text \<open>
  Modelled from the spec: \<^verbatim>\<open>lin.MultSQ\<close> (math/lin) is not among the sources. The
  spec has it as the "apply rotation to a point" operation: the vector \<open>(x, y, z)\<close>
  rotated by the quaternion \<open>q\<close>, computed as
  \<open>2 ((w\<^sup>2 - 1/2) v + (q \<cdot> v) q + w (q \<times> v))\<close>, which is the rotation when \<open>q\<close> has
  length one.
\<close>

definition MultSQ :: "real \<Rightarrow> real \<Rightarrow> real \<Rightarrow> Q \<Rightarrow> real \<times> real \<times> real" where
  "MultSQ x y z q =
     (let k0 = qW q * qW q - 0.5;
          k1 = x * qX q + y * qY q + z * qZ q;
          rx = x * k0 + qX q * k1 + qW q * (qY q * z - qZ q * y);
          ry = y * k0 + qY q * k1 + qW q * (qZ q * x - qX q * z);
          rz = z * k0 + qZ q * k1 + qW q * (qX q * y - qY q * x)
      in (rx + rx, ry + ry, rz + rz))"

record frontCull =
  fc_radius :: real
  fc_rr :: real

record radiusCull =
  rc_rr :: real

definition NewFrontCull :: "real \<Rightarrow> frontCull" where
  "NewFrontCull r0 = (let r = (if r0 < 0 then 0 else r0) in \<lparr>fc_radius = r, fc_rr = r * r\<rparr>)"

definition frontCull_Culled :: "frontCull \<Rightarrow> Camera \<Rightarrow> real \<Rightarrow> real \<Rightarrow> real \<Rightarrow> bool" where
  "frontCull_Culled fc cam wx0 wy0 wz0 =
     (let fudgeFactor = 0.8;
          (cx, cy, cz) = MultSQ 0 0 (- fc_radius fc * fudgeFactor) (Rot (cam_at cam));
          wx = wx0 - cx; wy = wy0 - cy; wz = wz0 - cz;
          toc = Distance cam wx wy wz
      in toc > fc_rr fc)"

definition NewRadiusCull :: "real \<Rightarrow> radiusCull" where
  "NewRadiusCull r0 = (let r = (if r0 < 0 then 0 else r0) in \<lparr>rc_rr = r * r\<rparr>)"

definition radiusCull_Culled :: "radiusCull \<Rightarrow> Camera \<Rightarrow> real \<Rightarrow> real \<Rightarrow> real \<Rightarrow> bool" where
  "radiusCull_Culled rc cam wx wy wz = (Distance cam wx wy wz > rc_rr rc)"

text \<open>The \<^verbatim>\<open>Culler\<close> interface with its two implementations.\<close>

datatype Culler = FrontCull frontCull | RadiusCull radiusCull

fun Culled :: "Culler \<Rightarrow> Camera \<Rightarrow> real \<Rightarrow> real \<Rightarrow> real \<Rightarrow> bool" where
  "Culled (FrontCull fc) cam wx wy wz = frontCull_Culled fc cam wx wy wz"
| "Culled (RadiusCull rc) cam wx wy wz = radiusCull_Culled rc cam wx wy wz"

text \<open>A camera at the given position with the identity rotation \<open>(0, 0, 0, 1)\<close>.\<close>

definition camera_at :: "real \<Rightarrow> real \<Rightarrow> real \<Rightarrow> Camera" where
  "camera_at x y z =
     \<lparr>cam_at = \<lparr>Loc = \<lparr>vX = x, vY = y, vZ = z\<rparr>, Rot = \<lparr>qX = 0, qY = 0, qZ = 0, qW = 1\<rparr>\<rparr>\<rparr>"

section \<open>The graphics device behind the binder (package gl)\<close>

text \<open>
  The binder talks to the device through the functions of package \<^verbatim>\<open>gl\<close>, the binding
  to OpenGL, which is not part of these sources. The device is modelled by the part of
  the OpenGL state the binder caches or resets, together with the log of the calls it
  has received, oldest first. What the driver answers (error codes, generated names,
  framebuffer status, link results) is not determined by the binder: the device holds
  the answers it will give, in order, and every property below holds whatever they are.
\<close>

type_synonym uint32 = "32 word"
type_synonym int32 = "32 word"
type_synonym float32 = "32 word"

text \<open>A \<^verbatim>\<open>float32\<close> is only passed through; it is its 32-bit pattern.\<close>

datatype glcap = DEPTH_TEST | SCISSOR_TEST | PROGRAM_POINT_SIZE
datatype glprim = LINES | POINTS | TRIANGLES
datatype glpoly = LINE | FILL
datatype glbuf = ARRAY_BUFFER | ELEMENT_ARRAY_BUFFER
datatype gltype = FLOAT | UNSIGNED_BYTE
datatype glformat = RGBA | DEPTH_COMPONENT | DEPTH_COMPONENT16
datatype glattach = COLOR_ATTACHMENT0 | DEPTH_ATTACHMENT
datatype gltexparam =
    TEXTURE_MAX_LEVEL | TEXTURE_WRAP_S | TEXTURE_WRAP_T | TEXTURE_MAG_FILTER
  | TEXTURE_MIN_FILTER | TEXTURE_COMPARE_FUNC | TEXTURE_COMPARE_MODE
datatype gltexval =
    TexLevel int | REPEAT | CLAMP_TO_EDGE | LINEAR | NEAREST | NEAREST_MIPMAP_LINEAR
  | LEQUAL | COMPARE_REF_TO_TEXTURE

text \<open>
  The calls, grouped by the kind of object they work on, with the arguments the binder
  chooses. Arguments that are the same constant at every call site are left out: the
  target \<^verbatim>\<open>FRAMEBUFFER\<close> of \<^verbatim>\<open>BindFramebuffer\<close>, \<^verbatim>\<open>TEXTURE_2D\<close> of the texture calls,
  \<^verbatim>\<open>FRONT_AND_BACK\<close> of \<^verbatim>\<open>PolygonMode\<close>, the index type \<^verbatim>\<open>UNSIGNED_SHORT\<close> and offset 0
  of the element draws, the transpose flag \<^verbatim>\<open>false\<close> of the matrix uniforms, the mask
  \<^verbatim>\<open>DEPTH_BUFFER_BIT\<close> of \<^verbatim>\<open>Clear\<close>. A call that returns a generated name carries it, and
  \<^verbatim>\<open>BufferData\<close> carries its size, whether its data pointer is set, and the usage.
\<close>

datatype gluniform =
    UniformMatrix3x4fv int32 int32 "float32 list"
  | UniformMatrix4fv int32 int32 "float32 list"
  | Uniform1i int32 int32
  | Uniform1f int32 float32
  | Uniform2f int32 float32 float32
  | Uniform3f int32 float32 float32 float32
  | Uniform4f int32 float32 float32 float32 float32

datatype gltexture =
    ActiveTexture uint32
  | BindTexture2D uint32
  | GenTextures uint32
  | TexImage2D glformat int32 int32 glformat gltype
  | GenerateMipmap
  | TexParameteri gltexparam gltexval

datatype glbuffer =
    GenVertexArrays uint32
  | GenBuffers uint32
  | BindBuffer glbuf uint32
  | BufferData glbuf int bool uint32
  | BufferSubData glbuf int int
  | VertexAttribPointer uint32 int32 gltype bool int32 int
  | EnableVertexAttribArray uint32
  | VertexAttribDivisor uint32 uint32

datatype gltarget =
    GenFramebuffers uint32
  | GenRenderbuffers uint32
  | BindRenderbuffer uint32
  | RenderbufferStorage int32 int32
  | FramebufferRenderbuffer uint32
  | FramebufferTexture glattach uint32
  | DrawBuffers glattach
  | DrawBufferNone
  | CheckFramebufferStatusCall

datatype glshader =
    CreateProgram uint32
  | BindProgramCall uint32
  | UniformsCall uint32
  | LayoutsCall uint32

datatype glcall =
    glEnable glcap
  | glDisable glcap
  | glScissor int32 int32 int32 int32
  | glBindFramebuffer uint32
  | glViewport int32 int32 int32 int32
  | glClearDepth
  | glUseProgram uint32
  | glBindVertexArray uint32
  | glPolygonMode glpoly
  | glDrawElements glprim int32
  | glDrawArrays glprim int32 int32
  | glDrawElementsInstanced glprim int32 int32
  | glGetError
  | glUniform gluniform
  | glTexture gltexture
  | glBuffer glbuffer
  | glTarget gltarget
  | glShader glshader

record gldev =
  program :: uint32
  framebuffer :: uint32
  depth_test :: bool
  scissor_test :: bool
  viewport :: "int32 \<times> int32 \<times> int32 \<times> int32"
  vertex_array :: uint32
  textures :: "uint32 list"
  calls :: "glcall list"
  errors :: "uint32 list"
  names :: "uint32 list"
  statuses :: "uint32 list"
  links :: "string option list"

text \<open>
  \<open>program\<close>, \<open>framebuffer\<close>, \<open>vertex_array\<close>: the objects currently bound;
  \<open>depth_test\<close>, \<open>scissor_test\<close>: the two capabilities; \<open>viewport\<close>: x, y, width, height;
  \<open>textures\<close>: the texture names generated so far. \<open>errors\<close>, \<open>names\<close>, \<open>statuses\<close>,
  \<open>links\<close>: the answers the driver gives to the coming calls of \<^verbatim>\<open>GetError\<close>, of the
  generating calls, of \<^verbatim>\<open>CheckFramebufferStatus\<close> and of \<^verbatim>\<open>BindProgram\<close>.
\<close>

definition NO_ERROR :: uint32 where
  "NO_ERROR = 0"

definition FRAMEBUFFER_COMPLETE :: uint32 where
  "FRAMEBUFFER_COMPLETE = 0x8CD5"

definition TEXTURE0 :: uint32 where
  "TEXTURE0 = 0x84C0"

definition STATIC_DRAW :: uint32 where
  "STATIC_DRAW = 0x88E4"

definition DYNAMIC_DRAW :: uint32 where
  "DYNAMIC_DRAW = 0x88E8"

text \<open>What a call does to the modelled part of the device state.\<close>

definition effect :: "glcall \<Rightarrow> gldev \<Rightarrow> gldev" where
  "effect c dev =
     (case c of
        glUseProgram p \<Rightarrow> dev\<lparr>program := p\<rparr>
      | glBindFramebuffer f \<Rightarrow> dev\<lparr>framebuffer := f\<rparr>
      | glBindVertexArray v \<Rightarrow> dev\<lparr>vertex_array := v\<rparr>
      | glViewport x y w h \<Rightarrow> dev\<lparr>viewport := (x, y, w, h)\<rparr>
      | glEnable cap \<Rightarrow>
          (case cap of
             DEPTH_TEST \<Rightarrow> dev\<lparr>depth_test := True\<rparr>
           | SCISSOR_TEST \<Rightarrow> dev\<lparr>scissor_test := True\<rparr>
           | PROGRAM_POINT_SIZE \<Rightarrow> dev)
      | glDisable cap \<Rightarrow>
          (case cap of
             DEPTH_TEST \<Rightarrow> dev\<lparr>depth_test := False\<rparr>
           | SCISSOR_TEST \<Rightarrow> dev\<lparr>scissor_test := False\<rparr>
           | PROGRAM_POINT_SIZE \<Rightarrow> dev)
      | glTexture t \<Rightarrow>
          (case t of
             GenTextures n \<Rightarrow> dev\<lparr>textures := n # textures dev\<rparr>
           | _ \<Rightarrow> dev)
      | _ \<Rightarrow> dev)"

text \<open>A call of a \<^verbatim>\<open>gl\<close> function: its effect, and the call appended to the log.\<close>

definition gl :: "glcall \<Rightarrow> gldev \<Rightarrow> gldev" where
  "gl c dev = (effect c dev)\<lparr>calls := calls dev @ [c]\<rparr>"

definition GetError :: "gldev \<Rightarrow> uint32 \<times> gldev" where
  "GetError dev =
     (case errors dev of
        [] \<Rightarrow> (NO_ERROR, gl glGetError dev)
      | e # es \<Rightarrow> (e, gl glGetError (dev\<lparr>errors := es\<rparr>)))"

text \<open>The next name the driver hands out (0 once its list is used up).\<close>

definition gen_name :: "(uint32 \<Rightarrow> glcall) \<Rightarrow> gldev \<Rightarrow> uint32 \<times> gldev" where
  "gen_name mk dev =
     (case names dev of
        [] \<Rightarrow> (0, gl (mk 0) dev)
      | n # ns \<Rightarrow> (n, gl (mk n) (dev\<lparr>names := ns\<rparr>)))"

definition CheckFramebufferStatus :: "gldev \<Rightarrow> uint32 \<times> gldev" where
  "CheckFramebufferStatus dev =
     (case statuses dev of
        [] \<Rightarrow> (FRAMEBUFFER_COMPLETE, gl (glTarget CheckFramebufferStatusCall) dev)
      | s # ss \<Rightarrow> (s, gl (glTarget CheckFramebufferStatusCall) (dev\<lparr>statuses := ss\<rparr>)))"

text \<open>\<^verbatim>\<open>gl.BindProgram\<close> compiles and links; \<open>None\<close> is Go's \<^verbatim>\<open>nil\<close> error.\<close>

definition BindProgram :: "uint32 \<Rightarrow> gldev \<Rightarrow> string option \<times> gldev" where
  "BindProgram p dev =
     (case links dev of
        [] \<Rightarrow> (None, gl (glShader (BindProgramCall p)) dev)
      | r # rs \<Rightarrow> (r, gl (glShader (BindProgramCall p)) (dev\<lparr>links := rs\<rparr>)))"

text \<open>The calls a device received between two of its states.\<close>

definition issued :: "gldev \<Rightarrow> gldev \<Rightarrow> glcall list" where
  "issued dev dev' = drop (length (calls dev)) (calls dev')"

section \<open>The binder and the draw submission (type opengl)\<close>

record opengl =
  depthTest :: bool
  shader :: uint32
  fbo :: uint32
  vw :: int32
  vh :: int32

text \<open>\<^verbatim>\<open>newRenderer\<close> returns \<^verbatim>\<open>&opengl{}\<close>: every field has its zero value.\<close>

definition newRenderer :: opengl where
  "newRenderer = \<lparr>depthTest = False, shader = 0, fbo = 0, vw = 0, vh = 0\<rparr>"

text \<open>
  The draw descriptor \<^verbatim>\<open>render.Draw\<close> is declared outside these sources; the record has
  the fields the binder reads, with the types of their uses. The primitive mode is one
  of the three named constants, or any other number (\<open>OtherMode\<close>), for which the
  \<^verbatim>\<open>switch\<close> of \<^verbatim>\<open>Render\<close> has no case. \<open>Uniforms\<close> is the map from uniform names to
  shader references, as the list of its entries in the order the \<^verbatim>\<open>range\<close> loop visits
  them.
\<close>

datatype DrawMode = Triangles | Points | Lines | OtherMode int

record tex =
  order :: int
  tid :: uint32

record Draw =
  Scissor :: bool
  Sx :: int32
  Sy :: int32
  Sw :: int32
  Sh :: int32
  Depth :: bool
  Fbo :: uint32
  Shader :: uint32
  Vao :: uint32
  Mode :: DrawMode
  FaceCnt :: int32
  VertCnt :: int32
  Instances :: int32
  Uniforms :: "(string \<times> int32) list"
  UniformData :: "int32 \<rightharpoonup> float32 list"
  Poses :: "float32 list"
  NumPoses :: int
  Shtex :: uint32
  Texs :: "tex list"
  Tag :: "64 word"

text \<open>
  Two things the binder uses and these sources do not define are parameters:
  \<open>LayerSize\<close>, the side of an off-screen target, and \<open>Sscanf_uv\<close>, the value
  \<^verbatim>\<open>fmt.Sscanf(key, "uv%d", &index)\<close> leaves in \<^verbatim>\<open>index\<close>, which starts as 0.
\<close>

record externals =
  LayerSize :: int32
  Sscanf_uv :: "string \<Rightarrow> int"

text \<open>What the binder writes with \<^verbatim>\<open>log.Printf\<close>, one constructor per format string.\<close>

datatype logmsg =
    AnimationDataExpected "64 word"
  | NoUniformData "64 word" string
  | FailedToBind "64 word" string nat
  | BindUniformsFailed int32 "64 word" uint32 string
  | BindTexturePriorError uint32
  | ShaderBindError uint32

text \<open>The errors the binder returns, one constructor per \<^verbatim>\<open>fmt.Errorf\<close>, and a run-time panic.\<close>

datatype error =
    BindMeshPriorError uint32
  | BindMeshFailedVb uint32
  | BindMeshFailedFb uint32
  | FailedShaderProgram string
  | UnsupportedImageFormat string
  | FailedBindingTexture uint32
  | BindFrameError uint32
  | FailedBindingFramebuffer uint32
  | RuntimePanic

definition Viewport :: "opengl \<Rightarrow> int \<Rightarrow> int \<Rightarrow> gldev \<Rightarrow> opengl \<times> gldev" where
  "Viewport gc width height dev =
     (gc\<lparr>vw := word_of_int width, vh := word_of_int height\<rparr>,
      gl (glViewport 0 0 (word_of_int width) (word_of_int height)) dev)"

subsection \<open>bindUniforms\<close>

text \<open>The check that ends an iteration of the loop: \<^verbatim>\<open>gl.GetError\<close>, logged when not clean.\<close>

definition uniformError :: "Draw \<Rightarrow> string \<Rightarrow> int32 \<Rightarrow> gldev \<times> logmsg list \<Rightarrow> gldev \<times> logmsg list" where
  "uniformError d key ref st =
     (case st of (dev, lg) \<Rightarrow>
        (case GetError dev of (glerr, dev') \<Rightarrow>
           (dev', if glerr \<noteq> NO_ERROR then lg @ [BindUniformsFailed ref (Tag d) glerr key] else lg)))"

text \<open>The \<^verbatim>\<open>default\<close> case once the data is found: the dispatch on its length.\<close>

definition bindData :: "Draw \<Rightarrow> string \<Rightarrow> int32 \<Rightarrow> float32 list \<Rightarrow> gldev \<times> logmsg list \<Rightarrow> gldev \<times> logmsg list" where
  "bindData d key ref data st =
     (case st of (dev, lg) \<Rightarrow>
        if length data = 1 then (gl (glUniform (Uniform1f ref (data ! 0))) dev, lg)
        else if length data = 2 then (gl (glUniform (Uniform2f ref (data ! 0) (data ! 1))) dev, lg)
        else if length data = 3 then
          (gl (glUniform (Uniform3f ref (data ! 0) (data ! 1) (data ! 2))) dev, lg)
        else if length data = 4 then
          (gl (glUniform (Uniform4f ref (data ! 0) (data ! 1) (data ! 2) (data ! 3))) dev, lg)
        else if length data = 16 then (gl (glUniform (UniformMatrix4fv ref 1 data)) dev, lg)
        else (dev, lg @ [FailedToBind (Tag d) key (length data)]))"

text \<open>
  One iteration of the loop, for the entry \<open>(key, ref)\<close>. The \<^verbatim>\<open>continue\<close> of the missing
  data leaves the iteration before the error check.
\<close>

definition bindUniform :: "externals \<Rightarrow> Draw \<Rightarrow> string \<times> int32 \<Rightarrow> gldev \<times> logmsg list \<Rightarrow> gldev \<times> logmsg list" where
  "bindUniform ex d entry st =
     (case entry of (key, ref) \<Rightarrow>
        (case st of (dev, lg) \<Rightarrow>
           if key = ''bpos'' then
             uniformError d key ref
               (if Poses d \<noteq> []
                then (gl (glUniform (UniformMatrix3x4fv ref (word_of_int (NumPoses d)) (Poses d))) dev, lg)
                else (dev, lg @ [AnimationDataExpected (Tag d)]))
           else if key = ''sm'' then
             uniformError d key ref
               (gl (glTexture (BindTexture2D (Shtex d)))
                  (gl (glTexture (ActiveTexture (TEXTURE0 + 15)))
                     (gl (glUniform (Uniform1i ref 15)) dev)), lg)
           else if take 2 key = ''uv'' then
             uniformError d key ref
               (case find (\<lambda>t. order t = Sscanf_uv ex key) (Texs d) of
                  Some t \<Rightarrow>
                    (gl (glTexture (BindTexture2D (tid t)))
                       (gl (glTexture (ActiveTexture (TEXTURE0 + word_of_int (order t))))
                          (gl (glUniform (Uniform1i ref (word_of_int (order t)))) dev)), lg)
                | None \<Rightarrow> (dev, lg))
           else
             (case UniformData d ref of
                None \<Rightarrow> (dev, lg @ [NoUniformData (Tag d) key])
              | Some data \<Rightarrow> uniformError d key ref (bindData d key ref data (dev, lg)))))"

text \<open>The loop over the given entries, and \<^verbatim>\<open>bindUniforms\<close>: the loop over all of them.\<close>

definition bindUniformsLoop :: "externals \<Rightarrow> Draw \<Rightarrow> (string \<times> int32) list \<Rightarrow> gldev \<times> logmsg list \<Rightarrow> gldev \<times> logmsg list" where
  "bindUniformsLoop ex d entries st = fold (bindUniform ex d) entries st"

definition bindUniforms :: "externals \<Rightarrow> Draw \<Rightarrow> gldev \<Rightarrow> gldev \<times> logmsg list" where
  "bindUniforms ex d dev = bindUniformsLoop ex d (Uniforms d) (dev, [])"

subsection \<open>Render\<close>

text \<open>The steps of \<^verbatim>\<open>Render\<close>, in the order of the source.\<close>

definition scissorOn :: "Draw \<Rightarrow> gldev \<Rightarrow> gldev" where
  "scissorOn d dev =
     (if Scissor d then gl (glScissor (Sx d) (Sy d) (Sw d) (Sh d)) (gl (glEnable SCISSOR_TEST) dev)
      else dev)"

definition switchDepth :: "Draw \<Rightarrow> opengl \<times> gldev \<Rightarrow> opengl \<times> gldev" where
  "switchDepth d st =
     (case st of (gc, dev) \<Rightarrow>
        if depthTest gc \<noteq> Depth d
        then (gc\<lparr>depthTest := Depth d\<rparr>,
              if Depth d then gl (glEnable DEPTH_TEST) dev else gl (glDisable DEPTH_TEST) dev)
        else (gc, dev))"

definition switchFbo :: "externals \<Rightarrow> Draw \<Rightarrow> opengl \<times> gldev \<Rightarrow> opengl \<times> gldev" where
  "switchFbo ex d st =
     (case st of (gc, dev) \<Rightarrow>
        if fbo gc \<noteq> Fbo d
        then (gc\<lparr>fbo := Fbo d\<rparr>,
              if Fbo d = 0
              then gl (glViewport 0 0 (vw gc) (vh gc)) (gl (glBindFramebuffer (Fbo d)) dev)
              else gl (glViewport 0 0 (LayerSize ex) (LayerSize ex))
                     (gl glClearDepth (gl (glBindFramebuffer (Fbo d)) dev)))
        else (gc, dev))"

definition switchShader :: "Draw \<Rightarrow> opengl \<times> gldev \<Rightarrow> opengl \<times> gldev" where
  "switchShader d st =
     (case st of (gc, dev) \<Rightarrow>
        if shader gc \<noteq> Shader d
        then (gc\<lparr>shader := Shader d\<rparr>, gl (glUseProgram (Shader d)) dev)
        else (gc, dev))"

definition drawMode :: "Draw \<Rightarrow> gldev \<Rightarrow> gldev" where
  "drawMode d dev =
     (case Mode d of
        Lines \<Rightarrow>
          gl (glPolygonMode FILL) (gl (glDrawElements LINES (FaceCnt d)) (gl (glPolygonMode LINE) dev))
      | Points \<Rightarrow>
          gl (glDisable PROGRAM_POINT_SIZE)
            (gl (glDrawArrays POINTS 0 (VertCnt d)) (gl (glEnable PROGRAM_POINT_SIZE) dev))
      | Triangles \<Rightarrow>
          (if 0 <s Instances d
           then gl (glDrawElementsInstanced TRIANGLES (FaceCnt d) (Instances d)) dev
           else gl (glDrawElements TRIANGLES (FaceCnt d)) dev)
      | OtherMode n \<Rightarrow> dev)"

definition scissorOff :: "Draw \<Rightarrow> gldev \<Rightarrow> gldev" where
  "scissorOff d dev = (if Scissor d then gl (glDisable SCISSOR_TEST) dev else dev)"

definition Render :: "externals \<Rightarrow> opengl \<Rightarrow> Draw \<Rightarrow> gldev \<Rightarrow> opengl \<times> gldev \<times> logmsg list" where
  "Render ex gc d dev =
     (case switchShader d (switchFbo ex d (switchDepth d (gc, scissorOn d dev))) of
        (gc', dev1) \<Rightarrow>
          (case bindUniforms ex d dev1 of
             (dev2, lg) \<Rightarrow>
               (gc',
                scissorOff d
                  (gl (glBindVertexArray 0) (drawMode d (gl (glBindVertexArray (Vao d)) dev2))),
                lg)))"

text \<open>A sequence of draws submitted through \<^verbatim>\<open>Render\<close> on one context, one after the other.\<close>

fun Renders :: "externals \<Rightarrow> Draw list \<Rightarrow> opengl \<times> gldev \<times> logmsg list \<Rightarrow> opengl \<times> gldev \<times> logmsg list" where
  "Renders ex [] st = st"
| "Renders ex (d # ds) (gc, dev, lg) =
     (case Render ex gc d dev of (gc', dev', lg') \<Rightarrow> Renders ex ds (gc', dev', lg @ lg'))"

subsection \<open>Meshes on the device: BindMesh\<close>

text \<open>
  \<^verbatim>\<open>render.Data\<close> is an interface with two implementations, \<^verbatim>\<open>*vertexData\<close> and
  \<^verbatim>\<open>*faceData\<close>, declared outside these sources; the records have the fields the binder
  reads and writes. \<open>vd_cap\<close> is the capacity of the \<^verbatim>\<open>floats\<close> slice.
\<close>

record vertexData =
  vd_lloc :: uint32
  vd_span :: int32
  vd_usage :: uint32
  vd_normalize :: bool
  vd_instanced :: bool
  vd_rebind :: bool
  vd_floats :: "float32 list"
  vd_cap :: nat
  vd_bytes :: "8 word list"
  vd_ref :: uint32

record faceData =
  fd_usage :: uint32
  fd_rebind :: bool
  fd_data :: "16 word list"
  fd_ref :: uint32

datatype Data = VertexData vertexData | FaceData faceData

text \<open>One round of the loop that sets up the four rows of an instanced matrix.\<close>

definition instancedRow :: "vertexData \<Rightarrow> uint32 \<Rightarrow> gldev \<Rightarrow> gldev" where
  "instancedRow vd cnt dev =
     gl (glBuffer (VertexAttribDivisor (vd_lloc vd + cnt) 1))
       (gl (glBuffer (VertexAttribPointer (vd_lloc vd + cnt) 4 FLOAT False 64 (uint (cnt * 16))))
          (gl (glBuffer (EnableVertexAttribArray (vd_lloc vd + cnt))) dev))"

definition bindVertexBuffer :: "vertexData \<Rightarrow> gldev \<Rightarrow> vertexData \<times> gldev" where
  "bindVertexBuffer vd0 dev0 =
     (case (if vd_ref vd0 = 0 then gen_name (\<lambda>n. glBuffer (GenBuffers n)) dev0 else (vd_ref vd0, dev0)) of
        (r, dev1) \<Rightarrow>
          (let vd = vd0\<lparr>vd_ref := r\<rparr>;
               dev2 =
                 (if vd_usage vd = STATIC_DRAW then
                    (if vd_floats vd \<noteq> [] then
                       (let d1 = gl (glBuffer (VertexAttribPointer (vd_lloc vd) (vd_span vd) FLOAT False 0 0))
                                  (gl (glBuffer (BufferData ARRAY_BUFFER (int (length (vd_floats vd)) * 4) True (vd_usage vd)))
                                     (gl (glBuffer (BindBuffer ARRAY_BUFFER r)) dev1))
                        in if vd_instanced vd then fold (instancedRow vd) [0, 1, 2, 3] d1
                           else gl (glBuffer (EnableVertexAttribArray (vd_lloc vd))) d1)
                     else if vd_bytes vd \<noteq> [] then
                       gl (glBuffer (EnableVertexAttribArray (vd_lloc vd)))
                         (gl (glBuffer (VertexAttribPointer (vd_lloc vd) (vd_span vd) UNSIGNED_BYTE (vd_normalize vd) 0 0))
                            (gl (glBuffer (BufferData ARRAY_BUFFER (int (length (vd_bytes vd))) True (vd_usage vd)))
                               (gl (glBuffer (BindBuffer ARRAY_BUFFER r)) dev1)))
                     else dev1)
                  else if vd_usage vd = DYNAMIC_DRAW then
                    (if vd_floats vd \<noteq> [] then
                       gl (glBuffer (EnableVertexAttribArray (vd_lloc vd)))
                         (gl (glBuffer (VertexAttribPointer (vd_lloc vd) (vd_span vd) FLOAT False 0 0))
                            (gl (glBuffer (BufferSubData ARRAY_BUFFER 0 (int (length (vd_floats vd)) * 4)))
                               (gl (glBuffer (BufferData ARRAY_BUFFER (int (vd_cap vd) * 4) False (vd_usage vd)))
                                  (gl (glBuffer (BindBuffer ARRAY_BUFFER r)) dev1))))
                     else dev1)
                  else dev1)
           in (vd, gl (glBuffer (BindBuffer ARRAY_BUFFER 0)) dev2)))"

definition bindFaceBuffer :: "faceData \<Rightarrow> gldev \<Rightarrow> faceData \<times> gldev" where
  "bindFaceBuffer fd dev =
     (if fd_data fd \<noteq> [] then
        (case (if fd_ref fd = 0 then gen_name (\<lambda>n. glBuffer (GenBuffers n)) dev else (fd_ref fd, dev)) of
           (r, dev1) \<Rightarrow>
             (fd\<lparr>fd_ref := r\<rparr>,
              gl (glBuffer (BufferData ELEMENT_ARRAY_BUFFER (int (length (fd_data fd)) * 2) True (fd_usage fd)))
                (gl (glBuffer (BindBuffer ELEMENT_ARRAY_BUFFER r)) dev1)))
      else (fd, dev))"

text \<open>
  The body of the loop of \<^verbatim>\<open>BindMesh\<close> over the vertex buffers, for the buffer stored under
  key \<open>k\<close>: a vertex buffer that needs it is sent to the device and marked clean.
\<close>

definition bindVertexEntry :: "uint32 \<Rightarrow> (uint32 \<rightharpoonup> Data) \<times> gldev \<Rightarrow> (uint32 \<rightharpoonup> Data) \<times> gldev" where
  "bindVertexEntry k st =
     (case st of (vdata, dev) \<Rightarrow>
        (case vdata k of
           Some (VertexData vd) \<Rightarrow>
             (if vd_rebind vd then
                (case bindVertexBuffer vd dev of
                   (vd', dev') \<Rightarrow> (vdata(k \<mapsto> VertexData (vd'\<lparr>vd_rebind := False\<rparr>)), dev'))
              else (vdata, dev))
         | _ \<Rightarrow> (vdata, dev)))"

text \<open>
  The face buffer step of \<^verbatim>\<open>BindMesh\<close>: a face buffer that needs it is sent to the
  device and marked clean.
\<close>

definition bindFaces :: "Data option \<Rightarrow> gldev \<Rightarrow> Data option \<times> gldev" where
  "bindFaces fdata dev =
     (case fdata of
        Some (FaceData fd) \<Rightarrow>
          (if fd_rebind fd then
             (case bindFaceBuffer fd dev of
                (fd', dev') \<Rightarrow> (Some (FaceData (fd'\<lparr>fd_rebind := False\<rparr>)), dev'))
           else (fdata, dev))
      | _ \<Rightarrow> (fdata, dev))"

text \<open>
  \<^verbatim>\<open>BindMesh\<close>. The map \<open>vdata\<close> comes with \<open>ks\<close>, its keys in the order the \<^verbatim>\<open>range\<close> loop
  visits them, which Go leaves open. The result is the returned error (\<open>None\<close> for
  \<^verbatim>\<open>nil\<close>) and what the call leaves behind its pointer arguments and on the device.
\<close>

definition BindMesh ::
  "uint32 \<Rightarrow> (uint32 \<rightharpoonup> Data) \<Rightarrow> uint32 list \<Rightarrow> Data option \<Rightarrow> gldev
     \<Rightarrow> error option \<times> uint32 \<times> (uint32 \<rightharpoonup> Data) \<times> Data option \<times> gldev" where
  "BindMesh vao0 vdata0 ks fdata0 dev0 =
     (case GetError dev0 of (glerr0, dev1) \<Rightarrow>
        if glerr0 \<noteq> NO_ERROR then (Some (BindMeshPriorError glerr0), vao0, vdata0, fdata0, dev1)
        else
          (case (if vao0 = 0 then gen_name (\<lambda>n. glBuffer (GenVertexArrays n)) dev1 else (vao0, dev1)) of
             (vao1, dev2) \<Rightarrow>
               (case fold bindVertexEntry ks (vdata0, gl (glBindVertexArray vao1) dev2) of
                  (vdata1, dev3) \<Rightarrow>
                    (case GetError dev3 of (glerr1, dev4) \<Rightarrow>
                       if glerr1 \<noteq> NO_ERROR
                       then (Some (BindMeshFailedVb glerr1), vao1, vdata1, fdata0, dev4)
                       else
                         (case bindFaces fdata0 dev4 of
                            (fdata1, dev5) \<Rightarrow>
                              (case GetError dev5 of (glerr2, dev6) \<Rightarrow>
                                 if glerr2 \<noteq> NO_ERROR
                                 then (Some (BindMeshFailedFb glerr2), vao1, vdata1, fdata1, dev6)
                                 else (None, vao1, vdata1, fdata1, gl (glBindVertexArray 0) dev6)))))))"

subsection \<open>Shaders, textures and off-screen targets\<close>

text \<open>
  \<^verbatim>\<open>BindShader\<close>. The entries \<^verbatim>\<open>gl.Uniforms\<close> and \<^verbatim>\<open>gl.Layouts\<close> add to the two maps come
  from the driver and are not modelled; neither are the shader sources.
\<close>

definition BindShader :: "gldev \<Rightarrow> (uint32 \<times> error option) \<times> gldev \<times> logmsg list" where
  "BindShader dev0 =
     (case gen_name (\<lambda>n. glShader (CreateProgram n)) dev0 of (prog, dev1) \<Rightarrow>
        (case BindProgram prog dev1 of
           (Some msg, dev2) \<Rightarrow> ((prog, Some (FailedShaderProgram msg)), dev2, [])
         | (None, dev2) \<Rightarrow>
             (case GetError (gl (glShader (LayoutsCall prog)) (gl (glShader (UniformsCall prog)) dev2)) of
                (glerr, dev3) \<Rightarrow>
                  ((prog, None), dev3, if glerr \<noteq> NO_ERROR then [ShaderBindError glerr] else []))))"

definition SetTextureMode :: "uint32 \<Rightarrow> bool \<Rightarrow> gldev \<Rightarrow> gldev" where
  "SetTextureMode t clamp dev =
     gl (glTexture (TexParameteri TEXTURE_MIN_FILTER NEAREST_MIPMAP_LINEAR))
       (gl (glTexture (TexParameteri TEXTURE_MAG_FILTER LINEAR))
          ((if clamp
            then gl (glTexture (TexParameteri TEXTURE_WRAP_T CLAMP_TO_EDGE))
                 \<circ> gl (glTexture (TexParameteri TEXTURE_WRAP_S CLAMP_TO_EDGE))
            else gl (glTexture (TexParameteri TEXTURE_WRAP_T REPEAT))
                 \<circ> gl (glTexture (TexParameteri TEXTURE_WRAP_S REPEAT)))
             (gl (glTexture (TexParameteri TEXTURE_MAX_LEVEL (TexLevel 7)))
                (gl (glTexture (BindTexture2D t)) dev))))"

text \<open>
  An \<^verbatim>\<open>image.Image\<close>: an \<^verbatim>\<open>*image.RGBA\<close> or an \<^verbatim>\<open>*image.NRGBA\<close> with its pixel bytes, or
  an image of another type, with the name of the type; each with the width and height
  of its bounds.
\<close>

datatype image =
    RGBAImage "8 word list" int int
  | NRGBAImage "8 word list" int int
  | OtherImage string int int

text \<open>
  \<^verbatim>\<open>BindTexture\<close> from the upload on, for the two supported image types. Taking the
  address of \<^verbatim>\<open>Pix[0]\<close> panics when there are no pixels.
\<close>

definition uploadTexture ::
  "uint32 \<Rightarrow> 8 word list \<Rightarrow> int \<Rightarrow> int \<Rightarrow> gldev \<Rightarrow> logmsg list
     \<Rightarrow> error option \<times> uint32 \<times> gldev \<times> logmsg list" where
  "uploadTexture t pix dx dy dev lg =
     (if pix = [] then (Some RuntimePanic, t, dev, lg)
      else
        (case GetError
                (SetTextureMode t False
                   (gl (glTexture GenerateMipmap)
                      (gl (glTexture (TexImage2D RGBA (word_of_int dx) (word_of_int dy) RGBA UNSIGNED_BYTE)) dev))) of
           (glerr, dev') \<Rightarrow>
             (if glerr \<noteq> NO_ERROR then Some (FailedBindingTexture glerr) else None, t, dev', lg)))"

definition BindTexture ::
  "uint32 \<Rightarrow> image \<Rightarrow> gldev \<Rightarrow> error option \<times> uint32 \<times> gldev \<times> logmsg list" where
  "BindTexture tid0 img dev0 =
     (case GetError dev0 of (glerr, dev1) \<Rightarrow>
        (case (if tid0 = 0 then gen_name (\<lambda>n. glTexture (GenTextures n)) dev1 else (tid0, dev1)) of
           (tid1, dev2) \<Rightarrow>
             (let lg = (if glerr \<noteq> NO_ERROR then [BindTexturePriorError glerr] else []);
                  dev3 = gl (glTexture (BindTexture2D tid1)) dev2
              in case img of
                   RGBAImage pix dx dy \<Rightarrow> uploadTexture tid1 pix dx dy dev3 lg
                 | NRGBAImage pix dx dy \<Rightarrow> uploadTexture tid1 pix dx dy dev3 lg
                 | OtherImage tname dx dy \<Rightarrow> (Some (UnsupportedImageFormat tname), tid1, dev3, lg))))"

text \<open>
  \<^verbatim>\<open>BindTarget\<close> and \<^verbatim>\<open>BindMap\<close> overwrite what their pointer arguments hold; the result
  is the returned error and the three (two) names they leave there.
\<close>

definition BindTarget :: "externals \<Rightarrow> gldev \<Rightarrow> error option \<times> (uint32 \<times> uint32 \<times> uint32) \<times> gldev" where
  "BindTarget ex dev0 =
     (case gen_name (\<lambda>n. glTarget (GenFramebuffers n)) dev0 of (f, dev1) \<Rightarrow>
      case gen_name (\<lambda>n. glTexture (GenTextures n)) (gl (glBindFramebuffer f) dev1) of (t, dev2) \<Rightarrow>
      case gen_name (\<lambda>n. glTarget (GenRenderbuffers n))
             (gl (glTexture (TexParameteri TEXTURE_MIN_FILTER NEAREST))
                (gl (glTexture (TexParameteri TEXTURE_MAG_FILTER NEAREST))
                   (gl (glTexture (TexImage2D RGBA (LayerSize ex) (LayerSize ex) RGBA UNSIGNED_BYTE))
                      (gl (glTexture (BindTexture2D t)) dev2)))) of (b, dev3) \<Rightarrow>
      case CheckFramebufferStatus
             (gl (glTarget (DrawBuffers COLOR_ATTACHMENT0))
                (gl (glTarget (FramebufferTexture COLOR_ATTACHMENT0 t))
                   (gl (glTarget (FramebufferRenderbuffer b))
                      (gl (glTarget (RenderbufferStorage (LayerSize ex) (LayerSize ex)))
                         (gl (glTarget (BindRenderbuffer b)) dev3))))) of (status, dev4) \<Rightarrow>
        if status \<noteq> FRAMEBUFFER_COMPLETE then (Some (BindFrameError status), (f, t, b), dev4)
        else
          (case GetError dev4 of (glerr, dev5) \<Rightarrow>
             (if glerr \<noteq> NO_ERROR then Some (FailedBindingFramebuffer glerr) else None,
              (f, t, b), gl (glBindFramebuffer 0) dev5)))"

definition BindMap :: "externals \<Rightarrow> gldev \<Rightarrow> error option \<times> (uint32 \<times> uint32) \<times> gldev" where
  "BindMap ex dev0 =
     (case gen_name (\<lambda>n. glTarget (GenFramebuffers n)) dev0 of (f, dev1) \<Rightarrow>
      case gen_name (\<lambda>n. glTexture (GenTextures n)) (gl (glBindFramebuffer f) dev1) of (t, dev2) \<Rightarrow>
      case CheckFramebufferStatus
             (gl (glTarget DrawBufferNone)
                (gl (glTarget (FramebufferTexture DEPTH_ATTACHMENT t))
                   (gl (glTexture (TexParameteri TEXTURE_COMPARE_MODE COMPARE_REF_TO_TEXTURE))
                      (gl (glTexture (TexParameteri TEXTURE_COMPARE_FUNC LEQUAL))
                         (gl (glTexture (TexParameteri TEXTURE_WRAP_T CLAMP_TO_EDGE))
                            (gl (glTexture (TexParameteri TEXTURE_WRAP_S CLAMP_TO_EDGE))
                               (gl (glTexture (TexParameteri TEXTURE_MIN_FILTER LINEAR))
                                  (gl (glTexture (TexParameteri TEXTURE_MAG_FILTER LINEAR))
                                     (gl (glTexture (TexImage2D DEPTH_COMPONENT16 (LayerSize ex) (LayerSize ex)
                                            DEPTH_COMPONENT FLOAT))
                                        (gl (glTexture (BindTexture2D t)) dev2)))))))))) of (status, dev3) \<Rightarrow>
        if status \<noteq> FRAMEBUFFER_COMPLETE then (Some (BindFrameError status), (f, t), dev3)
        else
          (case GetError dev3 of (glerr, dev4) \<Rightarrow>
             (if glerr \<noteq> NO_ERROR then Some (FailedBindingFramebuffer glerr) else None,
              (f, t), gl (glBindFramebuffer 0) dev4)))"

section \<open>Meshes (mesh.go)\<close>

record Mesh =
  name :: string
  tag :: "64 word"
  vao :: uint32
  rebind :: bool
  faces :: "Data option"
  vdata :: "uint32 \<rightharpoonup> Data"

text \<open>
  The constructors and methods of \<^verbatim>\<open>render.Data\<close> that the mesh calls are declared outside
  these sources and are parameters: \<^verbatim>\<open>NewVertexData\<close>, \<^verbatim>\<open>NewFaceData\<close>, \<^verbatim>\<open>Set\<close> (for a
  payload of any type \<open>'p\<close>) and \<^verbatim>\<open>Len\<close>. So is \<^verbatim>\<open>assetID\<close>, which hashes a mesh name.
\<close>

record 'p DataOps =
  NewVertexData :: "uint32 \<Rightarrow> uint32 \<Rightarrow> uint32 \<Rightarrow> bool \<Rightarrow> Data"
  NewFaceData :: "uint32 \<Rightarrow> Data"
  Set :: "Data \<Rightarrow> 'p \<Rightarrow> Data"
  Len :: "Data \<Rightarrow> int"

definition newMesh :: "(string \<Rightarrow> 64 word) \<Rightarrow> string \<Rightarrow> Mesh" where
  "newMesh assetID n =
     \<lparr>name = n, tag = assetID n, vao = 0, rebind = False, faces = None, vdata = Map.empty\<rparr>"

text \<open>
  \<^verbatim>\<open>counts\<close>. With a non-empty \<open>vdata\<close> that has no entry for key 0, \<^verbatim>\<open>m.vdata[0]\<close> is the
  \<^verbatim>\<open>nil\<close> interface and the call of \<^verbatim>\<open>Len\<close> on it panics.
\<close>

definition counts :: "'p DataOps \<Rightarrow> Mesh \<Rightarrow> error + int \<times> int" where
  "counts ops m =
     (let fcnt = (case faces m of Some f \<Rightarrow> Len ops f | None \<Rightarrow> 0)
      in if dom (vdata m) \<noteq> {} then
           (case vdata m 0 of
              Some v \<Rightarrow> Inr (fcnt, Len ops v)
            | None \<Rightarrow> Inl RuntimePanic)
         else Inr (fcnt, 0))"

definition InitData :: "'p DataOps \<Rightarrow> Mesh \<Rightarrow> uint32 \<Rightarrow> uint32 \<Rightarrow> uint32 \<Rightarrow> bool \<Rightarrow> Mesh" where
  "InitData ops m lloc spn usage nrm =
     (case vdata m lloc of
        None \<Rightarrow> m\<lparr>vdata := (vdata m)(lloc \<mapsto> NewVertexData ops lloc spn usage nrm)\<rparr>
      | Some v \<Rightarrow> m)"

definition SetData :: "'p DataOps \<Rightarrow> Mesh \<Rightarrow> uint32 \<Rightarrow> 'p \<Rightarrow> Mesh" where
  "SetData ops m lloc data =
     (case vdata m lloc of
        Some v \<Rightarrow> m\<lparr>vdata := (vdata m)(lloc \<mapsto> Set ops v data), rebind := True\<rparr>
      | None \<Rightarrow> m)"

definition InitFaces :: "'p DataOps \<Rightarrow> Mesh \<Rightarrow> uint32 \<Rightarrow> Mesh" where
  "InitFaces ops m usage =
     (case faces m of
        None \<Rightarrow> m\<lparr>faces := Some (NewFaceData ops usage)\<rparr>
      | Some f \<Rightarrow> m)"

definition SetFaces :: "'p DataOps \<Rightarrow> Mesh \<Rightarrow> 'p \<Rightarrow> Mesh" where
  "SetFaces ops m data =
     (case faces m of
        Some f \<Rightarrow> m\<lparr>faces := Some (Set ops f data), rebind := True\<rparr>
      | None \<Rightarrow> m)"

text \<open>
  Modelled from the spec: \<^verbatim>\<open>engine.bind\<close> is not among the sources. For a mesh, the spec
  has the binder "ensure underlying GPU objects are current (uploading any dirty
  vertex/index data via the Buffer Store)": \<^verbatim>\<open>BindMesh\<close> on the mesh's vertex array
  handle, vertex buffers and face buffer, whose error it returns.
\<close>

definition engine_bind :: "uint32 list \<Rightarrow> Mesh \<Rightarrow> gldev \<Rightarrow> error option \<times> Mesh \<times> gldev" where
  "engine_bind ks m dev =
     (case BindMesh (vao m) (vdata m) ks (faces m) dev of
        (err, vao', vdata', faces', dev') \<Rightarrow>
          (err, m\<lparr>vao := vao', vdata := vdata', faces := faces'\<rparr>, dev'))"

text \<open>\<^verbatim>\<open>Mesh.bind\<close>: the flag is cleared, then the engine binds.\<close>

definition bind :: "uint32 list \<Rightarrow> Mesh \<Rightarrow> gldev \<Rightarrow> error option \<times> Mesh \<times> gldev" where
  "bind ks m dev = engine_bind ks (m\<lparr>rebind := False\<rparr>) dev"

section \<open>Properties of the cullers\<close>

lemma MultSQ_identity: "MultSQ x y z \<lparr>qX = 0, qY = 0, qZ = 0, qW = 1\<rparr> = (x, y, z)"
  by (simp add: MultSQ_def Let_def)

lemma frontCull_Culled_unfold:
  "frontCull_Culled fc cam wx wy wz =
     (case MultSQ 0 0 (- (0.8 * fc_radius fc)) (Rot (cam_at cam)) of (cx, cy, cz) \<Rightarrow>
        (wx - (vX (Loc (cam_at cam)) + cx)) * (wx - (vX (Loc (cam_at cam)) + cx))
      + (wy - (vY (Loc (cam_at cam)) + cy)) * (wy - (vY (Loc (cam_at cam)) + cy))
      + (wz - (vZ (Loc (cam_at cam)) + cz)) * (wz - (vZ (Loc (cam_at cam)) + cz))
      > fc_rr fc)"
  by (simp add: frontCull_Culled_def Distance_def Let_def algebra_simps split: prod.splits)

lemma frontCull_origin:
  "frontCull_Culled (NewFrontCull R) (camera_at 0 0 0) wx wy wz =
     (wx * wx + wy * wy + (wz + 0.8 * (if R < 0 then 0 else R)) * (wz + 0.8 * (if R < 0 then 0 else R))
        > (if R < 0 then 0 else R) * (if R < 0 then 0 else R))"
  by (simp add: frontCull_Culled_unfold NewFrontCull_def camera_at_def MultSQ_identity Let_def)

text \<open>
  C4. \<^verbatim>\<open>frontCull.Culled\<close> is true exactly when the squared distance from the
  candidate \<open>(wx, wy, wz)\<close> to the point reached from the camera's position by the
  camera rotation applied to \<open>(0, 0, -0.8 * radius)\<close> exceeds the culler's squared
  radius. For a camera at the origin with the identity rotation and a culler made by
  \<^verbatim>\<open>NewFrontCull R\<close> with \<open>0 \<le> R\<close>, that point is \<open>(0, 0, -0.8 R)\<close> and the squared
  radius is \<open>R\<^sup>2\<close>: a candidate at squared distance below \<open>R\<^sup>2\<close> from it is kept and
  one above is culled.
\<close>

theorem C4_front_cull:
  "frontCull_Culled fc cam wx wy wz =
     (case MultSQ 0 0 (- (0.8 * fc_radius fc)) (Rot (cam_at cam)) of (cx, cy, cz) \<Rightarrow>
        (wx - (vX (Loc (cam_at cam)) + cx)) * (wx - (vX (Loc (cam_at cam)) + cx))
      + (wy - (vY (Loc (cam_at cam)) + cy)) * (wy - (vY (Loc (cam_at cam)) + cy))
      + (wz - (vZ (Loc (cam_at cam)) + cz)) * (wz - (vZ (Loc (cam_at cam)) + cz))
      > fc_rr fc)
   \<and> (0 \<le> R \<longrightarrow> fc_rr (NewFrontCull R) = R * R)
   \<and> (0 \<le> R \<longrightarrow> px * px + py * py + (pz + 0.8 * R) * (pz + 0.8 * R) < R * R
        \<longrightarrow> \<not> frontCull_Culled (NewFrontCull R) (camera_at 0 0 0) px py pz)
   \<and> (0 \<le> R \<longrightarrow> px * px + py * py + (pz + 0.8 * R) * (pz + 0.8 * R) > R * R
        \<longrightarrow> frontCull_Culled (NewFrontCull R) (camera_at 0 0 0) px py pz)"
proof (intro conjI impI)
  show "frontCull_Culled fc cam wx wy wz =
     (case MultSQ 0 0 (- (0.8 * fc_radius fc)) (Rot (cam_at cam)) of (cx, cy, cz) \<Rightarrow>
        (wx - (vX (Loc (cam_at cam)) + cx)) * (wx - (vX (Loc (cam_at cam)) + cx))
      + (wy - (vY (Loc (cam_at cam)) + cy)) * (wy - (vY (Loc (cam_at cam)) + cy))
      + (wz - (vZ (Loc (cam_at cam)) + cz)) * (wz - (vZ (Loc (cam_at cam)) + cz))
      > fc_rr fc)"
    by (rule frontCull_Culled_unfold)
next
  assume "0 \<le> R"
  then show "fc_rr (NewFrontCull R) = R * R"
    by (simp add: NewFrontCull_def)
next
  assume "0 \<le> R" and "px * px + py * py + (pz + 0.8 * R) * (pz + 0.8 * R) < R * R"
  then show "\<not> frontCull_Culled (NewFrontCull R) (camera_at 0 0 0) px py pz"
    by (simp add: frontCull_origin)
next
  assume "0 \<le> R" and "px * px + py * py + (pz + 0.8 * R) * (pz + 0.8 * R) > R * R"
  then show "frontCull_Culled (NewFrontCull R) (camera_at 0 0 0) px py pz"
    by (simp add: frontCull_origin)
qed

text \<open>
  With radius 5 the projected point is \<open>(0, 0, -4)\<close>: the candidate \<open>(0, 0, -8.9)\<close>, at
  squared distance 24.01 from it, is kept, and \<open>(0, 0, -9.1)\<close>, at 26.01, is culled.
\<close>

theorem C4_front_cull_witness:
  "\<not> frontCull_Culled (NewFrontCull 5) (camera_at 0 0 0) 0 0 (- 8.9)
   \<and> frontCull_Culled (NewFrontCull 5) (camera_at 0 0 0) 0 0 (- 9.1)
   \<and> fc_rr (NewFrontCull 5) = 25"
proof -
  have keep: "\<not> frontCull_Culled (NewFrontCull 5) (camera_at 0 0 0) 0 0 (- 8.9)"
    using C4_front_cull [THEN conjunct2, THEN conjunct2, THEN conjunct1, of 5 0 0 "- 8.9"]
    by simp
  have cull: "frontCull_Culled (NewFrontCull 5) (camera_at 0 0 0) 0 0 (- 9.1)"
    using C4_front_cull [THEN conjunct2, THEN conjunct2, THEN conjunct2, of 5 0 0 "- 9.1"]
    by simp
  have "fc_rr (NewFrontCull 5) = 25"
    using C4_front_cull [THEN conjunct2, THEN conjunct1, of 5] by simp
  with keep cull show ?thesis by simp
qed

text \<open>
  C5. \<^verbatim>\<open>radiusCull.Culled\<close> is true exactly when the squared distance from the
  candidate to the camera's own position exceeds the culler's squared radius, which
  \<^verbatim>\<open>NewRadiusCull\<close> sets to the square of the radius clamped at zero. For a camera at
  the origin and radius 5: \<open>(3, 3, 0)\<close> is kept, \<open>(4, 4, 0)\<close> is culled, and the
  boundary candidate \<open>(3, 4, 0)\<close> is kept, the comparison being strict.
\<close>

theorem C5_radius_cull:
  "radiusCull_Culled rc cam wx wy wz =
     ((wx - vX (Loc (cam_at cam))) * (wx - vX (Loc (cam_at cam)))
    + (wy - vY (Loc (cam_at cam))) * (wy - vY (Loc (cam_at cam)))
    + (wz - vZ (Loc (cam_at cam))) * (wz - vZ (Loc (cam_at cam))) > rc_rr rc)
   \<and> rc_rr (NewRadiusCull r) = (if r < 0 then 0 else r * r)
   \<and> \<not> radiusCull_Culled (NewRadiusCull 5) (camera_at 0 0 0) 3 3 0
   \<and> radiusCull_Culled (NewRadiusCull 5) (camera_at 0 0 0) 4 4 0
   \<and> \<not> radiusCull_Culled (NewRadiusCull 5) (camera_at 0 0 0) 3 4 0"
  by (simp add: radiusCull_Culled_def Distance_def NewRadiusCull_def camera_at_def Let_def)

end
